theory Spec2Isabelle
  imports Main "HOL-Library.Word"
begin

section \<open>Values exchanged with the message handler\<close>

text \<open>
  The embedded source is \<^verbatim>\<open>src/raiden/message_handler.py\<close>, class
  \<^verbatim>\<open>MessageHandler\<close>. Addresses, secrets and secret hashes are Python
  \<^verbatim>\<open>bytes\<close>; identifiers and amounts are Python integers.
\<close>

type_synonym bytes = "8 word list"
type_synonym address = bytes
type_synonym secret = bytes
type_synonym secrethash = bytes

subsection \<open>Protocol messages\<close>

text \<open>
  The message classes live in \<^verbatim>\<open>raiden.messages\<close>, which is not part of the
  source at hand. Each record below holds the attributes that the handlers read
  (\<^verbatim>\<open>message.payment_identifier\<close>, \<^verbatim>\<open>message.lock.secrethash\<close>, ...); the
  envelope with the balance proof fields is
  modelled from the spec: it lists channel id, token network id, nonce, locksroot,
  transferred and locked amounts and signature.
\<close>

record envelope =
  env_channel_identifier :: int
  env_token_network_identifier :: address
  env_nonce :: int
  env_locksroot :: bytes
  env_transferred_amount :: int
  env_locked_amount :: int
  env_signature :: bytes

record lock =
  lock_amount :: int
  lock_secrethash :: secrethash

record secret_request =
  sr_payment_identifier :: int
  sr_amount :: int
  sr_expiration :: int
  sr_secrethash :: secrethash
  sr_sender :: address

record reveal_secret =
  rs_secret :: secret
  rs_sender :: address

record unlock =
  ul_message_identifier :: int
  ul_secret :: secret
  ul_envelope :: envelope
  ul_sender :: address

record lock_expired =
  le_message_identifier :: int
  le_secrethash :: secrethash
  le_envelope :: envelope
  le_sender :: address

text \<open>
  \<^verbatim>\<open>RefundTransfer\<close> and \<^verbatim>\<open>LockedTransfer\<close> carry the same attributes: the
  refund handler passes its message to \<^verbatim>\<open>lockedtransfersigned_from_message\<close>.
\<close>

record locked_transfer =
  lt_token_network_address :: address
  lt_sender :: address
  lt_lock :: lock
  lt_target :: address
  lt_envelope :: envelope

record withdraw_request =
  wr_token_network_identifier :: address
  wr_channel_identifier :: int
  wr_amount :: int
  wr_sender :: address

record delivered =
  dl_delivered_message_identifier :: int
  dl_sender :: address

record processed =
  pr_message_identifier :: int
  pr_sender :: address

text \<open>
  An instance of any other class: its class name and its \<^verbatim>\<open>cmdid\<close> attribute, the only
  attribute \<^verbatim>\<open>on_message\<close> reads of it.
\<close>

record other_message =
  om_class :: string
  om_cmdid :: "int option"

text \<open>
  A message is an object of exactly one class. The constructor is the class of the
  object, \<^verbatim>\<open>type(message)\<close>; the argument holds its attributes.
\<close>

datatype message =
    SecretRequest secret_request
  | RevealSecret reveal_secret
  | Unlock unlock
  | LockExpired lock_expired
  | RefundTransfer locked_transfer
  | LockedTransfer locked_transfer
  | WithdrawRequest withdraw_request
  | Delivered delivered
  | Processed processed
  | OtherMessage other_message

datatype message_class =
    SecretRequest_class
  | RevealSecret_class
  | Unlock_class
  | LockExpired_class
  | RefundTransfer_class
  | LockedTransfer_class
  | WithdrawRequest_class
  | Delivered_class
  | Processed_class
  | Other_class string

text \<open>Python's \<^verbatim>\<open>type(message)\<close>.\<close>

fun type_of :: "message \<Rightarrow> message_class" where
  "type_of (SecretRequest _) = SecretRequest_class"
| "type_of (RevealSecret _) = RevealSecret_class"
| "type_of (Unlock _) = Unlock_class"
| "type_of (LockExpired _) = LockExpired_class"
| "type_of (RefundTransfer _) = RefundTransfer_class"
| "type_of (LockedTransfer _) = LockedTransfer_class"
| "type_of (WithdrawRequest _) = WithdrawRequest_class"
| "type_of (Delivered _) = Delivered_class"
| "type_of (Processed _) = Processed_class"
| "type_of (OtherMessage m) = Other_class (om_class m)"

subsection \<open>State changes\<close>

text \<open>
  Modelled from the spec: the balance proof (\<^verbatim>\<open>raiden.transfer.state\<close> is not part
  of the source at hand). The handlers read only its \<^verbatim>\<open>sender\<close>.
\<close>

record balance_proof =
  bp_channel_identifier :: int
  bp_token_network_identifier :: address
  bp_nonce :: int
  bp_locksroot :: bytes
  bp_transferred_amount :: int
  bp_locked_amount :: int
  bp_signature :: bytes
  bp_sender :: address

text \<open>
  The result of \<^verbatim>\<open>lockedtransfersigned_from_message\<close>, with the attributes the refund
  handler reads: \<^verbatim>\<open>target\<close>, \<^verbatim>\<open>lock\<close> and \<^verbatim>\<open>balance_proof\<close>.
\<close>

record locked_transfer_signed_state =
  lts_target :: address
  lts_lock :: lock
  lts_balance_proof :: balance_proof

text \<open>
  The state changes the handlers construct, with their arguments in the order of the
  constructor calls in the source. \<open>'r\<close> is the type of a route.
\<close>

datatype 'r state_change =
    ReceiveSecretRequest int int int secrethash address
  | ReceiveSecretReveal secret address
  | ReceiveUnlock int secret balance_proof address
  | ReceiveLockExpired address balance_proof secrethash int
  | ReceiveTransferRefund locked_transfer_signed_state balance_proof address "'r list"
  | ReceiveTransferRefundCancelRoute "'r list" locked_transfer_signed_state balance_proof
      address secret
  | ReceiveWithdrawRequest address int int address
  | ReceiveProcessed address int
  | ReceiveDelivered address int

text \<open>The \<^verbatim>\<open>sender\<close>, \<^verbatim>\<open>secret\<close> and \<^verbatim>\<open>routes\<close> attributes of a state change.\<close>

fun sc_sender :: "'r state_change \<Rightarrow> address" where
  "sc_sender (ReceiveSecretRequest _ _ _ _ s) = s"
| "sc_sender (ReceiveSecretReveal _ s) = s"
| "sc_sender (ReceiveUnlock _ _ _ s) = s"
| "sc_sender (ReceiveLockExpired s _ _ _) = s"
| "sc_sender (ReceiveTransferRefund _ _ s _) = s"
| "sc_sender (ReceiveTransferRefundCancelRoute _ _ _ s _) = s"
| "sc_sender (ReceiveWithdrawRequest _ _ _ s) = s"
| "sc_sender (ReceiveProcessed s _) = s"
| "sc_sender (ReceiveDelivered s _) = s"

fun sc_secret :: "'r state_change \<Rightarrow> secret option" where
  "sc_secret (ReceiveSecretReveal x _) = Some x"
| "sc_secret (ReceiveUnlock _ x _ _) = Some x"
| "sc_secret (ReceiveTransferRefundCancelRoute _ _ _ _ x) = Some x"
| "sc_secret _ = None"

fun sc_routes :: "'r state_change \<Rightarrow> 'r list option" where
  "sc_routes (ReceiveTransferRefund _ _ _ rs) = Some rs"
| "sc_routes (ReceiveTransferRefundCancelRoute rs _ _ _ _) = Some rs"
| "sc_routes _ = None"

section \<open>Collaborators\<close>

text \<open>
  \<^verbatim>\<open>raiden: RaidenService\<close>, as far as the handlers use it: the attributes
  \<^verbatim>\<open>address\<close>, \<^verbatim>\<open>default_one_to_n_address\<close>, \<^verbatim>\<open>config\<close>, \<^verbatim>\<open>privkey\<close> and the
  answer of \<^verbatim>\<open>default_secret_registry.is_secret_registered(secrethash, block_identifier)\<close>.
\<close>

record secret_registry =
  is_secret_registered :: "secrethash \<Rightarrow> string \<Rightarrow> bool"

record 'cfg raiden_service =
  address :: address
  default_one_to_n_address :: address
  config :: 'cfg
  privkey :: bytes
  default_secret_registry :: secret_registry

text \<open>The keyword arguments of the call of \<^verbatim>\<open>get_best_routes\<close>.\<close>

record ('cs, 'cfg) best_routes_args =
  arg_chain_state :: 'cs
  arg_token_network_address :: address
  arg_one_to_n_address :: address
  arg_from_address :: address
  arg_to_address :: address
  arg_amount :: int
  arg_previous_address :: address
  arg_config :: 'cfg
  arg_privkey :: bytes

text \<open>
  The names the module imports from modules that are not part of the source at hand
  (\<^verbatim>\<open>raiden.constants\<close>, \<^verbatim>\<open>raiden.messages\<close>, \<^verbatim>\<open>raiden.routing\<close>,
  \<^verbatim>\<open>raiden.transfer.views\<close>, \<^verbatim>\<open>raiden.transfer.state\<close>, \<^verbatim>\<open>raiden.utils\<close>) are
  parameters of the model. \<open>superclasses\<close> is the class hierarchy of the message
  classes, which decides \<^verbatim>\<open>isinstance\<close>. \<open>random_secret ext n\<close> is what the
  \<open>n\<close>-th call of \<^verbatim>\<open>random_secret()\<close> returns. \<open>'cs\<close> is the type of the chain state,
  \<open>'r\<close> of a route, \<open>'cfg\<close> of the configuration and \<open>'fb\<close> of the second component
  of the result of \<^verbatim>\<open>get_best_routes\<close>, which the handler drops.
\<close>

record ('cs, 'r, 'cfg, 'fb) externals =
  ABSENT_SECRET :: secret
  superclasses :: "message_class \<Rightarrow> message_class list"
  lockedtransfersigned_from_message :: "message \<Rightarrow> locked_transfer_signed_state"
  balanceproof_from_envelope :: "message \<Rightarrow> balance_proof"
  state_from_raiden :: "'cfg raiden_service \<Rightarrow> 'cs"
  get_best_routes :: "('cs, 'cfg) best_routes_args \<Rightarrow> 'r list \<times> 'fb"
  get_transfer_role :: "'cs \<Rightarrow> secrethash \<Rightarrow> string"
  get_transfer_secret :: "'cs \<Rightarrow> secrethash \<Rightarrow> secret"
  random_secret :: "nat \<Rightarrow> secret"

section \<open>Effects\<close>

datatype handler =
    Handler_secretrequest
  | Handler_revealsecret
  | Handler_unlock
  | Handler_lockexpired
  | Handler_refundtransfer
  | Handler_lockedtransfer
  | Handler_withdrawrequest
  | Handler_delivered
  | Handler_processed

text \<open>
  What a dispatch does to the outside, in order: the call of a handler method through
  \<^verbatim>\<open>self\<close>, the query of the secret registry with its two arguments, the three
  methods of \<^verbatim>\<open>raiden\<close> that take over a state change or a message, and the two log
  lines (the text with the formatted value beside it). The collaborators are taken to
  return: the exceptions of the model are those that the code of the handler class
  itself raises, a failed call and a failed assertion.
\<close>

datatype 'r event =
    Call handler
  | IsSecretRegistered secrethash string
  | HandleAndTrackStateChange "'r state_change"
  | TargetMediatedTransfer locked_transfer
  | MediateMediatedTransfer locked_transfer
  | LogError string "int option"
  | LogWarning string secrethash

record 'r world =
  events :: "'r event list"
  draws :: nat

datatype exn = TypeError | AssertionError

type_synonym 'r outcome = "(exn + unit) \<times> 'r world"

definition emit :: "'r event \<Rightarrow> 'r world \<Rightarrow> 'r world" where
  "emit e w = w\<lparr>events := events w @ [e]\<rparr>"

definition handle_and_track_state_change ::
  "'cfg raiden_service \<Rightarrow> 'r state_change \<Rightarrow> 'r world \<Rightarrow> 'r outcome" where
  "handle_and_track_state_change raiden state_change w =
     (Inr (), emit (HandleAndTrackStateChange state_change) w)"

definition target_mediated_transfer ::
  "'cfg raiden_service \<Rightarrow> locked_transfer \<Rightarrow> 'r world \<Rightarrow> 'r outcome" where
  "target_mediated_transfer raiden message w = (Inr (), emit (TargetMediatedTransfer message) w)"

definition mediate_mediated_transfer ::
  "'cfg raiden_service \<Rightarrow> locked_transfer \<Rightarrow> 'r world \<Rightarrow> 'r outcome" where
  "mediate_mediated_transfer raiden message w = (Inr (), emit (MediateMediatedTransfer message) w)"

text \<open>One call of \<^verbatim>\<open>random_secret()\<close>: the next draw of the generator.\<close>

definition random_secret_call ::
  "('cs, 'r, 'cfg, 'fb) externals \<Rightarrow> 'r world \<Rightarrow> secret \<times> 'r world" where
  "random_secret_call ext w = (random_secret ext (draws w), w\<lparr>draws := Suc (draws w)\<rparr>)"

section \<open>The handlers\<close>

definition handle_message_withdrawrequest ::
  "'cfg raiden_service \<Rightarrow> withdraw_request \<Rightarrow> 'r world \<Rightarrow> 'r outcome" where
  "handle_message_withdrawrequest raiden message w =
     (let secret_request =
        ReceiveWithdrawRequest (wr_token_network_identifier message)
          (wr_channel_identifier message) (wr_amount message) (wr_sender message)
      in handle_and_track_state_change raiden secret_request w)"

definition handle_message_secretrequest ::
  "'cfg raiden_service \<Rightarrow> secret_request \<Rightarrow> 'r world \<Rightarrow> 'r outcome" where
  "handle_message_secretrequest raiden message w =
     (let secret_request =
        ReceiveSecretRequest (sr_payment_identifier message) (sr_amount message)
          (sr_expiration message) (sr_secrethash message) (sr_sender message)
      in handle_and_track_state_change raiden secret_request w)"

definition handle_message_revealsecret ::
  "'cfg raiden_service \<Rightarrow> reveal_secret \<Rightarrow> 'r world \<Rightarrow> 'r outcome" where
  "handle_message_revealsecret raiden message w =
     (let state_change = ReceiveSecretReveal (rs_secret message) (rs_sender message)
      in handle_and_track_state_change raiden state_change w)"

definition handle_message_unlock ::
  "('cs, 'r, 'cfg, 'fb) externals \<Rightarrow> 'cfg raiden_service \<Rightarrow> unlock \<Rightarrow> 'r world \<Rightarrow> 'r outcome"
  where
  "handle_message_unlock ext raiden message w =
     (let balance_proof = balanceproof_from_envelope ext (Unlock message);
          state_change =
            ReceiveUnlock (ul_message_identifier message) (ul_secret message) balance_proof
              (bp_sender balance_proof)
      in handle_and_track_state_change raiden state_change w)"

definition handle_message_lockexpired ::
  "('cs, 'r, 'cfg, 'fb) externals \<Rightarrow> 'cfg raiden_service \<Rightarrow> lock_expired \<Rightarrow> 'r world
    \<Rightarrow> 'r outcome" where
  "handle_message_lockexpired ext raiden message w =
     (let balance_proof = balanceproof_from_envelope ext (LockExpired message);
          state_change =
            ReceiveLockExpired (bp_sender balance_proof) balance_proof (le_secrethash message)
              (le_message_identifier message)
      in handle_and_track_state_change raiden state_change w)"

definition handle_message_refundtransfer ::
  "('cs, 'r, 'cfg, 'fb) externals \<Rightarrow> 'cfg raiden_service \<Rightarrow> locked_transfer \<Rightarrow> 'r world
    \<Rightarrow> 'r outcome" where
  "handle_message_refundtransfer ext raiden message w =
     (let token_network_address = lt_token_network_address message;
          from_transfer = lockedtransfersigned_from_message ext (RefundTransfer message);
          chain_state = state_from_raiden ext raiden;
          (routes, _) = get_best_routes ext
            \<lparr>arg_chain_state = chain_state,
             arg_token_network_address = token_network_address,
             arg_one_to_n_address = default_one_to_n_address raiden,
             arg_from_address = address raiden,
             arg_to_address = lts_target from_transfer,
             arg_amount = lock_amount (lts_lock from_transfer),
             arg_previous_address = lt_sender message,
             arg_config = config raiden,
             arg_privkey = privkey raiden\<rparr>;
          role = get_transfer_role ext chain_state (lock_secrethash (lts_lock from_transfer))
      in if role = ''initiator'' then
           (let old_secret =
                  get_transfer_secret ext chain_state (lock_secrethash (lts_lock from_transfer));
                routes = (if old_secret = ABSENT_SECRET ext then [] else routes);
                (secret, w1) = random_secret_call ext w;
                state_change =
                  ReceiveTransferRefundCancelRoute routes from_transfer
                    (lts_balance_proof from_transfer)
                    (bp_sender (lts_balance_proof from_transfer)) secret
            in handle_and_track_state_change raiden state_change w1)
         else
           (let state_change =
                  ReceiveTransferRefund from_transfer (lts_balance_proof from_transfer)
                    (bp_sender (lts_balance_proof from_transfer)) routes
            in handle_and_track_state_change raiden state_change w))"

definition handle_message_lockedtransfer ::
  "'cfg raiden_service \<Rightarrow> locked_transfer \<Rightarrow> 'r world \<Rightarrow> 'r outcome" where
  "handle_message_lockedtransfer raiden message w =
     (let secrethash = lock_secrethash (lt_lock message);
          registered =
            is_secret_registered (default_secret_registry raiden) secrethash ''latest'';
          w1 = emit (IsSecretRegistered secrethash ''latest'') w
      in if registered then
           (Inr (),
            emit (LogWarning
              ''Ignoring received locked transfer with secrethash {} since it is already registered in the secret registry''
              secrethash) w1)
         else if lt_target message = address raiden then target_mediated_transfer raiden message w1
         else mediate_mediated_transfer raiden message w1)"

definition handle_message_processed ::
  "'cfg raiden_service \<Rightarrow> processed \<Rightarrow> 'r world \<Rightarrow> 'r outcome" where
  "handle_message_processed raiden message w =
     (let processed = ReceiveProcessed (pr_sender message) (pr_message_identifier message)
      in handle_and_track_state_change raiden processed w)"

definition handle_message_delivered ::
  "'cfg raiden_service \<Rightarrow> delivered \<Rightarrow> 'r world \<Rightarrow> 'r outcome" where
  "handle_message_delivered raiden message w =
     (let delivered =
        ReceiveDelivered (dl_sender message) (dl_delivered_message_identifier message)
      in handle_and_track_state_change raiden delivered w)"

section \<open>Dispatch\<close>

text \<open>
  How each handler is declared in the class: all but
  \<^verbatim>\<open>handle_message_withdrawrequest\<close> are decorated with \<^verbatim>\<open>@staticmethod\<close>, and all
  declare the two parameters \<^verbatim>\<open>raiden\<close> and \<^verbatim>\<open>message\<close>.
\<close>

datatype decorator = Staticmethod | Undecorated

fun decorator_of :: "handler \<Rightarrow> decorator" where
  "decorator_of Handler_withdrawrequest = Undecorated"
| "decorator_of _ = Staticmethod"

fun declared_parameters :: "handler \<Rightarrow> nat" where
  "declared_parameters _ = 2"

text \<open>
  Python's attribute lookup on an instance: a plain function of the class becomes a
  bound method, which passes the instance as an additional first argument; a static
  method receives exactly the arguments of the call.
\<close>

fun passed_arguments :: "decorator \<Rightarrow> nat \<Rightarrow> nat" where
  "passed_arguments Staticmethod n = n"
| "passed_arguments Undecorated n = Suc n"

text \<open>
  The call \<^verbatim>\<open>self.handle_message_...(raiden, message)\<close>: the body runs when the number
  of positional arguments fits the declaration, and the call raises
  \<^verbatim>\<open>TypeError\<close> otherwise.
\<close>

definition call_handler ::
  "handler \<Rightarrow> nat \<Rightarrow> ('r world \<Rightarrow> 'r outcome) \<Rightarrow> 'r world \<Rightarrow> 'r outcome" where
  "call_handler h n body w =
     (let w1 = emit (Call h) w
      in if passed_arguments (decorator_of h) n = declared_parameters h then body w1
         else (Inl TypeError, w1))"

text \<open>Python's \<^verbatim>\<open>isinstance\<close> and \<^verbatim>\<open>assert\<close>.\<close>

definition isinstance ::
  "('cs, 'r, 'cfg, 'fb) externals \<Rightarrow> message \<Rightarrow> message_class \<Rightarrow> bool" where
  "isinstance ext message c \<longleftrightarrow>
     type_of message = c \<or> c \<in> set (superclasses ext (type_of message))"

definition py_assert :: "bool \<Rightarrow> ('r world \<Rightarrow> 'r outcome) \<Rightarrow> 'r world \<Rightarrow> 'r outcome" where
  "py_assert b rest w = (if b then rest w else (Inl AssertionError, w))"

text \<open>
  \<^verbatim>\<open>on_message\<close>. The tests \<^verbatim>\<open>type(message) == C\<close> compare the class of the object
  itself, so each is the match of one constructor; the classes are tried in the order
  of the source.
\<close>

fun on_message ::
  "('cs, 'r, 'cfg, 'fb) externals \<Rightarrow> 'cfg raiden_service \<Rightarrow> message \<Rightarrow> 'r world \<Rightarrow> 'r outcome"
  where
  "on_message ext raiden (SecretRequest m) w =
     py_assert (isinstance ext (SecretRequest m) SecretRequest_class)
       (call_handler Handler_secretrequest 2 (handle_message_secretrequest raiden m)) w"
| "on_message ext raiden (RevealSecret m) w =
     py_assert (isinstance ext (RevealSecret m) RevealSecret_class)
       (call_handler Handler_revealsecret 2 (handle_message_revealsecret raiden m)) w"
| "on_message ext raiden (Unlock m) w =
     py_assert (isinstance ext (Unlock m) Unlock_class)
       (call_handler Handler_unlock 2 (handle_message_unlock ext raiden m)) w"
| "on_message ext raiden (LockExpired m) w =
     py_assert (isinstance ext (LockExpired m) LockExpired_class)
       (call_handler Handler_lockexpired 2 (handle_message_lockexpired ext raiden m)) w"
| "on_message ext raiden (RefundTransfer m) w =
     py_assert (isinstance ext (RefundTransfer m) RefundTransfer_class)
       (call_handler Handler_refundtransfer 2 (handle_message_refundtransfer ext raiden m)) w"
| "on_message ext raiden (LockedTransfer m) w =
     py_assert (isinstance ext (LockedTransfer m) LockedTransfer_class)
       (call_handler Handler_lockedtransfer 2 (handle_message_lockedtransfer raiden m)) w"
| "on_message ext raiden (WithdrawRequest m) w =
     py_assert (isinstance ext (WithdrawRequest m) WithdrawRequest_class)
       (call_handler Handler_withdrawrequest 2 (handle_message_withdrawrequest raiden m)) w"
| "on_message ext raiden (Delivered m) w =
     py_assert (isinstance ext (Delivered m) Delivered_class)
       (call_handler Handler_delivered 2 (handle_message_delivered raiden m)) w"
| "on_message ext raiden (Processed m) w =
     py_assert (isinstance ext (Processed m) Processed_class)
       (call_handler Handler_processed 2 (handle_message_processed raiden m)) w"
| "on_message ext raiden (OtherMessage m) w =
     (Inr (), emit (LogError ''Unknown message cmdid {}'' (om_cmdid m)) w)"

section \<open>Observations on a dispatch\<close>

text \<open>The state changes handed to \<^verbatim>\<open>raiden.handle_and_track_state_change\<close>, in order.\<close>

fun state_changes :: "'r event list \<Rightarrow> 'r state_change list" where
  "state_changes [] = []"
| "state_changes (HandleAndTrackStateChange sc # es) = sc # state_changes es"
| "state_changes (_ # es) = state_changes es"

text \<open>The handler methods called through \<^verbatim>\<open>self\<close>, in order.\<close>

fun handler_calls :: "'r event list \<Rightarrow> handler list" where
  "handler_calls [] = []"
| "handler_calls (Call h # es) = h # handler_calls es"
| "handler_calls (_ # es) = handler_calls es"

text \<open>
  The calls of \<^verbatim>\<open>raiden.target_mediated_transfer\<close> and
  \<^verbatim>\<open>raiden.mediate_mediated_transfer\<close>, in order.
\<close>

fun entry_points :: "'r event list \<Rightarrow> 'r event list" where
  "entry_points [] = []"
| "entry_points (TargetMediatedTransfer m # es) = TargetMediatedTransfer m # entry_points es"
| "entry_points (MediateMediatedTransfer m # es) = MediateMediatedTransfer m # entry_points es"
| "entry_points (_ # es) = entry_points es"

text \<open>What a dispatch started in \<open>w\<close> added to the events.\<close>

definition new_events :: "'r world \<Rightarrow> 'r outcome \<Rightarrow> 'r event list" where
  "new_events w res = drop (length (events w)) (events (snd res))"

definition known_classes :: "message_class list" where
  "known_classes =
     [SecretRequest_class, RevealSecret_class, Unlock_class, LockExpired_class,
      RefundTransfer_class, LockedTransfer_class, WithdrawRequest_class, Delivered_class,
      Processed_class]"

subsection \<open>The values the refund handler computes\<close>

text \<open>
  Names for the local variables of \<^verbatim>\<open>handle_message_refundtransfer\<close>:
  \<^verbatim>\<open>from_transfer\<close>, its \<^verbatim>\<open>lock.secrethash\<close>, \<^verbatim>\<open>routes\<close> as
  \<^verbatim>\<open>get_best_routes\<close> returned them, \<^verbatim>\<open>role\<close> and \<^verbatim>\<open>old_secret\<close>.
\<close>

definition refund_transfer ::
  "('cs, 'r, 'cfg, 'fb) externals \<Rightarrow> locked_transfer \<Rightarrow> locked_transfer_signed_state" where
  "refund_transfer ext message = lockedtransfersigned_from_message ext (RefundTransfer message)"

definition refund_secrethash ::
  "('cs, 'r, 'cfg, 'fb) externals \<Rightarrow> locked_transfer \<Rightarrow> secrethash" where
  "refund_secrethash ext message = lock_secrethash (lts_lock (refund_transfer ext message))"

definition refund_routes ::
  "('cs, 'r, 'cfg, 'fb) externals \<Rightarrow> 'cfg raiden_service \<Rightarrow> locked_transfer \<Rightarrow> 'r list" where
  "refund_routes ext raiden message =
     fst (get_best_routes ext
       \<lparr>arg_chain_state = state_from_raiden ext raiden,
        arg_token_network_address = lt_token_network_address message,
        arg_one_to_n_address = default_one_to_n_address raiden,
        arg_from_address = address raiden,
        arg_to_address = lts_target (refund_transfer ext message),
        arg_amount = lock_amount (lts_lock (refund_transfer ext message)),
        arg_previous_address = lt_sender message,
        arg_config = config raiden,
        arg_privkey = privkey raiden\<rparr>)"

definition refund_role ::
  "('cs, 'r, 'cfg, 'fb) externals \<Rightarrow> 'cfg raiden_service \<Rightarrow> locked_transfer \<Rightarrow> string" where
  "refund_role ext raiden message =
     get_transfer_role ext (state_from_raiden ext raiden) (refund_secrethash ext message)"

definition refund_old_secret ::
  "('cs, 'r, 'cfg, 'fb) externals \<Rightarrow> 'cfg raiden_service \<Rightarrow> locked_transfer \<Rightarrow> secret" where
  "refund_old_secret ext raiden message =
     get_transfer_secret ext (state_from_raiden ext raiden) (refund_secrethash ext message)"

text \<open>
  Modelled from the spec: \<^verbatim>\<open>random_secret\<close> of \<^verbatim>\<open>raiden.utils\<close> is not part of the
  source at hand; the spec calls what it returns a non-empty freshly generated secret.
  The predicate says so of the \<open>n\<close>-th draw.
\<close>

definition random_secret_nonempty :: "('cs, 'r, 'cfg, 'fb) externals \<Rightarrow> nat \<Rightarrow> bool" where
  "random_secret_nonempty ext n \<longleftrightarrow> random_secret ext n \<noteq> []"

section \<open>Sample inputs\<close>

text \<open>
  Concrete messages and collaborators at which the theorems below are evaluated. The
  node's own address is \<open>[0xC0]\<close>; the sample transfer is aimed at it and was sent by
  \<open>[0xA0]\<close>, while the balance proof names \<open>[0xB0]\<close> as its sender. In the sample
  class hierarchy \<^verbatim>\<open>RefundTransfer\<close> derives from \<^verbatim>\<open>LockedTransfer\<close> and a class
  \<^verbatim>\<open>Forged\<close> derives from \<^verbatim>\<open>SecretRequest\<close>.
\<close>

definition example_lock :: lock where
  "example_lock = \<lparr>lock_amount = 5, lock_secrethash = [0xAB]\<rparr>"

definition example_envelope :: envelope where
  "example_envelope =
     \<lparr>env_channel_identifier = 1, env_token_network_identifier = [0x70], env_nonce = 3,
      env_locksroot = [0x0F], env_transferred_amount = 0, env_locked_amount = 5,
      env_signature = [0x51]\<rparr>"

definition example_transfer_message :: locked_transfer where
  "example_transfer_message =
     \<lparr>lt_token_network_address = [0x70], lt_sender = [0xA0], lt_lock = example_lock,
      lt_target = [0xC0], lt_envelope = example_envelope\<rparr>"

definition example_balance_proof :: balance_proof where
  "example_balance_proof =
     \<lparr>bp_channel_identifier = 1, bp_token_network_identifier = [0x70], bp_nonce = 3,
      bp_locksroot = [0x0F], bp_transferred_amount = 0, bp_locked_amount = 5,
      bp_signature = [0x51], bp_sender = [0xB0]\<rparr>"

definition example_signed_transfer :: locked_transfer_signed_state where
  "example_signed_transfer =
     \<lparr>lts_target = [0xC0], lts_lock = example_lock, lts_balance_proof = example_balance_proof\<rparr>"

definition example_raiden :: "unit raiden_service" where
  "example_raiden =
     \<lparr>address = [0xC0], default_one_to_n_address = [0x11], config = (), privkey = [0x99],
      default_secret_registry = \<lparr>is_secret_registered = (\<lambda>sh b. False)\<rparr>\<rparr>"

definition registered_raiden :: "unit raiden_service" where
  "registered_raiden =
     example_raiden\<lparr>default_secret_registry :=
       \<lparr>is_secret_registered = (\<lambda>sh b. sh = [0xAB] \<and> b = ''latest'')\<rparr>\<rparr>"

definition example_externals :: "(nat, nat, unit, unit) externals" where
  "example_externals =
     \<lparr>ABSENT_SECRET = [],
      superclasses = (\<lambda>c. if c = RefundTransfer_class then [LockedTransfer_class]
                          else if c = Other_class ''Forged'' then [SecretRequest_class] else []),
      lockedtransfersigned_from_message = (\<lambda>_. example_signed_transfer),
      balanceproof_from_envelope = (\<lambda>_. example_balance_proof),
      state_from_raiden = (\<lambda>_. 0),
      get_best_routes = (\<lambda>_. ([10, 20], ())),
      get_transfer_role = (\<lambda>_ _. ''initiator''),
      get_transfer_secret = (\<lambda>_ _. []),
      random_secret = (\<lambda>n. [0x2A, of_nat n])\<rparr>"

definition known_secret_externals :: "(nat, nat, unit, unit) externals" where
  "known_secret_externals = example_externals\<lparr>get_transfer_secret := (\<lambda>_ _. [0x53])\<rparr>"

definition mediator_externals :: "(nat, nat, unit, unit) externals" where
  "mediator_externals =
     example_externals\<lparr>get_transfer_role := (\<lambda>_ _. ''mediator''),
       get_best_routes := (\<lambda>_. ([], ()))\<rparr>"

definition example_world :: "nat world" where
  "example_world = \<lparr>events = [], draws = 0\<rparr>"

definition example_withdraw_request :: withdraw_request where
  "example_withdraw_request =
     \<lparr>wr_token_network_identifier = [0x70], wr_channel_identifier = 1, wr_amount = 7,
      wr_sender = [0xA0]\<rparr>"

definition example_unlock :: unlock where
  "example_unlock =
     \<lparr>ul_message_identifier = 4, ul_secret = [0x53], ul_envelope = example_envelope,
      ul_sender = [0xA0]\<rparr>"

definition example_lock_expired :: lock_expired where
  "example_lock_expired =
     \<lparr>le_message_identifier = 6, le_secrethash = [0xAB], le_envelope = example_envelope,
      le_sender = [0xA0]\<rparr>"

definition example_delivered :: delivered where
  "example_delivered = \<lparr>dl_delivered_message_identifier = 9, dl_sender = [0xA0]\<rparr>"

definition forged_message :: other_message where
  "forged_message = \<lparr>om_class = ''Forged'', om_cmdid = Some 3\<rparr>"

section \<open>Shared facts\<close>

lemmas example_defs =
  example_lock_def example_envelope_def example_transfer_message_def example_balance_proof_def
  example_signed_transfer_def example_raiden_def registered_raiden_def example_externals_def
  known_secret_externals_def mediator_externals_def example_world_def
  example_withdraw_request_def example_unlock_def example_lock_expired_def
  example_delivered_def forged_message_def

lemmas refund_defs =
  refund_role_def refund_old_secret_def refund_routes_def refund_transfer_def
  refund_secrethash_def

lemmas dispatch_defs =
  py_assert_def isinstance_def call_handler_def handle_and_track_state_change_def emit_def
  Let_def split_beta

text \<open>
  The assertion after each test of the class cannot fail: an object is an instance of
  its own class.
\<close>

lemma isinstance_type_of: "isinstance ext m (type_of m)"
  by (simp add: isinstance_def)

lemma new_events_outcome [simp]:
  "new_events w (r, w\<lparr>events := events w @ es\<rparr>) = es"
  "new_events w (r, w\<lparr>events := events w @ es, draws := n\<rparr>) = es"
  by (simp_all add: new_events_def)

text \<open>
  The whole outcome of dispatching a \<^verbatim>\<open>RefundTransfer\<close>, for an initiator and for
  any other role.
\<close>

lemma refund_initiator_outcome:
  assumes "refund_role ext raiden m = ''initiator''"
  shows "on_message ext raiden (RefundTransfer m) w =
    (Inr (), w\<lparr>events := events w @
       [Call Handler_refundtransfer,
        HandleAndTrackStateChange
          (ReceiveTransferRefundCancelRoute
            (if refund_old_secret ext raiden m = ABSENT_SECRET ext then []
             else refund_routes ext raiden m)
            (refund_transfer ext m) (lts_balance_proof (refund_transfer ext m))
            (bp_sender (lts_balance_proof (refund_transfer ext m)))
            (random_secret ext (draws w)))],
       draws := Suc (draws w)\<rparr>)"
  using assms
  by (simp add: dispatch_defs refund_defs handle_message_refundtransfer_def
      random_secret_call_def)

lemma refund_mediator_outcome:
  assumes "refund_role ext raiden m \<noteq> ''initiator''"
  shows "on_message ext raiden (RefundTransfer m) w =
    (Inr (), w\<lparr>events := events w @
       [Call Handler_refundtransfer,
        HandleAndTrackStateChange
          (ReceiveTransferRefund
            (refund_transfer ext m) (lts_balance_proof (refund_transfer ext m))
            (bp_sender (lts_balance_proof (refund_transfer ext m)))
            (refund_routes ext raiden m))]\<rparr>)"
  using assms
  by (simp add: dispatch_defs refund_defs handle_message_refundtransfer_def)

text \<open>The whole outcome of dispatching a \<^verbatim>\<open>LockedTransfer\<close>.\<close>

lemma lockedtransfer_outcome:
  "on_message ext raiden (LockedTransfer m) w =
    (Inr (), w\<lparr>events := events w @
       [Call Handler_lockedtransfer,
        IsSecretRegistered (lock_secrethash (lt_lock m)) ''latest'',
        if is_secret_registered (default_secret_registry raiden) (lock_secrethash (lt_lock m))
             ''latest''
        then LogWarning
          ''Ignoring received locked transfer with secrethash {} since it is already registered in the secret registry''
          (lock_secrethash (lt_lock m))
        else if lt_target m = address raiden then TargetMediatedTransfer m
        else MediateMediatedTransfer m]\<rparr>)"
  by (simp add: dispatch_defs handle_message_lockedtransfer_def target_mediated_transfer_def
      mediate_mediated_transfer_def)

text \<open>
  The call of \<^verbatim>\<open>handle_message_withdrawrequest\<close> through \<^verbatim>\<open>self\<close> passes three
  positional arguments to a function that declares two, for every message; the body,
  were it run on \<^verbatim>\<open>raiden\<close> and the message, hands over the
  \<^verbatim>\<open>ReceiveWithdrawRequest\<close> built from the message's fields.
\<close>

lemma withdrawrequest_outcome:
  "on_message ext raiden (WithdrawRequest m) w =
     (Inl TypeError, w\<lparr>events := events w @ [Call Handler_withdrawrequest]\<rparr>)"
  by (simp add: dispatch_defs)

lemma withdrawrequest_body:
  "handle_message_withdrawrequest raiden m w =
     (Inr (), w\<lparr>events := events w @
        [HandleAndTrackStateChange
           (ReceiveWithdrawRequest (wr_token_network_identifier m) (wr_channel_identifier m)
              (wr_amount m) (wr_sender m))]\<rparr>)"
  by (simp add: handle_message_withdrawrequest_def dispatch_defs)

text \<open>
  For the eight classes whose handler is a static method, the dispatch is the handler
  of that class run on \<^verbatim>\<open>raiden\<close> and the message, after the call is recorded. In
  particular a \<^verbatim>\<open>RefundTransfer\<close> and a \<^verbatim>\<open>LockedTransfer\<close> with the same attributes
  go to different handlers.
\<close>

lemma dispatch_runs_handler:
  "on_message ext raiden (SecretRequest a) w =
     handle_message_secretrequest raiden a (emit (Call Handler_secretrequest) w)"
  "on_message ext raiden (RevealSecret b) w =
     handle_message_revealsecret raiden b (emit (Call Handler_revealsecret) w)"
  "on_message ext raiden (Unlock c) w =
     handle_message_unlock ext raiden c (emit (Call Handler_unlock) w)"
  "on_message ext raiden (LockExpired d) w =
     handle_message_lockexpired ext raiden d (emit (Call Handler_lockexpired) w)"
  "on_message ext raiden (RefundTransfer t) w =
     handle_message_refundtransfer ext raiden t (emit (Call Handler_refundtransfer) w)"
  "on_message ext raiden (LockedTransfer t) w =
     handle_message_lockedtransfer raiden t (emit (Call Handler_lockedtransfer) w)"
  "on_message ext raiden (Delivered f) w =
     handle_message_delivered raiden f (emit (Call Handler_delivered) w)"
  "on_message ext raiden (Processed g) w =
     handle_message_processed raiden g (emit (Call Handler_processed) w)"
  by (simp_all add: py_assert_def isinstance_def call_handler_def Let_def)

text \<open>
  Of the values the refund handler computes, only \<^verbatim>\<open>old_secret\<close> depends on
  \<^verbatim>\<open>get_transfer_secret\<close>.
\<close>

lemma refund_get_transfer_secret_update:
  "refund_transfer (ext\<lparr>get_transfer_secret := g\<rparr>) m = refund_transfer ext m"
  "refund_secrethash (ext\<lparr>get_transfer_secret := g\<rparr>) m = refund_secrethash ext m"
  "refund_routes (ext\<lparr>get_transfer_secret := g\<rparr>) raiden m = refund_routes ext raiden m"
  "refund_role (ext\<lparr>get_transfer_secret := g\<rparr>) raiden m = refund_role ext raiden m"
  "refund_old_secret (ext\<lparr>get_transfer_secret := g\<rparr>) raiden m =
     g (state_from_raiden ext raiden) (refund_secrethash ext m)"
  by (simp_all add: refund_defs)

section \<open>Refund received by an initiator that does not know the secret\<close>

text \<open>
  C1: when a \<^verbatim>\<open>RefundTransfer\<close> is dispatched, the role of the node for the secrethash
  of the transfer is \<^verbatim>\<open>"initiator"\<close> and the secret known locally is
  \<^verbatim>\<open>ABSENT_SECRET\<close>, the dispatch returns normally and hands over exactly one state
  change: a \<^verbatim>\<open>ReceiveTransferRefundCancelRoute\<close> whose route list is empty, whatever
  \<^verbatim>\<open>get_best_routes\<close> returned, and whose secret is the one \<^verbatim>\<open>random_secret()\<close> has
  just generated. That secret is non-empty provided the generator, which is outside the
  source at hand, returns non-empty secrets as the spec says. No state change with a
  non-empty route list is handed over, since the one above is the only one.
\<close>

theorem refund_initiator_without_secret:
  assumes "refund_role ext raiden m = ''initiator''"
    and "refund_old_secret ext raiden m = ABSENT_SECRET ext"
    and "random_secret_nonempty ext (draws w)"
  shows "\<exists>s. s \<noteq> [] \<and> s = random_secret ext (draws w) \<and>
    fst (on_message ext raiden (RefundTransfer m) w) = Inr () \<and>
    state_changes (new_events w (on_message ext raiden (RefundTransfer m) w)) =
      [ReceiveTransferRefundCancelRoute [] (refund_transfer ext m)
         (lts_balance_proof (refund_transfer ext m))
         (bp_sender (lts_balance_proof (refund_transfer ext m))) s]"
  using assms
  by (simp del: on_message.simps add: refund_initiator_outcome random_secret_nonempty_def)

theorem refund_initiator_without_secret_witness:
  "refund_role example_externals example_raiden example_transfer_message = ''initiator'' \<and>
   refund_old_secret example_externals example_raiden example_transfer_message =
     ABSENT_SECRET example_externals \<and>
   random_secret_nonempty example_externals (draws example_world) \<and>
   refund_routes example_externals example_raiden example_transfer_message = [10, 20] \<and>
   state_changes (new_events example_world
     (on_message example_externals example_raiden (RefundTransfer example_transfer_message)
        example_world)) =
     [ReceiveTransferRefundCancelRoute [] example_signed_transfer example_balance_proof [0xB0]
        [0x2A, 0]]"
  using refund_initiator_without_secret [of example_externals example_raiden
      example_transfer_message example_world]
  by (simp del: on_message.simps add: refund_defs random_secret_nonempty_def example_defs)

section \<open>The replay guard on locked transfers\<close>

text \<open>
  C2: the first thing the handler of a \<^verbatim>\<open>LockedTransfer\<close> does is to ask the secret
  registry whether the secrethash of the lock is registered, with the block identifier
  \<^verbatim>\<open>"latest"\<close>. If the answer is true the dispatch returns normally after logging a
  warning: it hands over no state change and calls neither
  \<^verbatim>\<open>target_mediated_transfer\<close> nor \<^verbatim>\<open>mediate_mediated_transfer\<close>, whatever the target
  of the message is.
\<close>

theorem lockedtransfer_replay_guard:
  "take 2 (new_events w (on_message ext raiden (LockedTransfer m) w)) =
     [Call Handler_lockedtransfer, IsSecretRegistered (lock_secrethash (lt_lock m)) ''latest''] \<and>
   (is_secret_registered (default_secret_registry raiden) (lock_secrethash (lt_lock m)) ''latest''
    \<longrightarrow>
      on_message ext raiden (LockedTransfer m) w =
        (Inr (), w\<lparr>events := events w @
          [Call Handler_lockedtransfer,
           IsSecretRegistered (lock_secrethash (lt_lock m)) ''latest'',
           LogWarning
             ''Ignoring received locked transfer with secrethash {} since it is already registered in the secret registry''
             (lock_secrethash (lt_lock m))]\<rparr>) \<and>
      state_changes (new_events w (on_message ext raiden (LockedTransfer m) w)) = [] \<and>
      entry_points (new_events w (on_message ext raiden (LockedTransfer m) w)) = [])"
  by (simp del: on_message.simps add: lockedtransfer_outcome)

theorem lockedtransfer_replay_guard_witness:
  "lt_target example_transfer_message = address registered_raiden \<and>
   is_secret_registered (default_secret_registry registered_raiden)
     (lock_secrethash (lt_lock example_transfer_message)) ''latest'' \<and>
   on_message example_externals registered_raiden (LockedTransfer example_transfer_message)
       example_world =
     (Inr (), \<lparr>events =
        [Call Handler_lockedtransfer, IsSecretRegistered [0xAB] ''latest'',
         LogWarning
           ''Ignoring received locked transfer with secrethash {} since it is already registered in the secret registry''
           [0xAB]],
        draws = 0\<rparr>) \<and>
   state_changes (new_events example_world
     (on_message example_externals registered_raiden (LockedTransfer example_transfer_message)
        example_world)) = [] \<and>
   entry_points (new_events example_world
     (on_message example_externals registered_raiden (LockedTransfer example_transfer_message)
        example_world)) = []"
  using lockedtransfer_replay_guard [of example_world example_externals registered_raiden
      example_transfer_message]
  by (simp del: on_message.simps add: example_defs new_events_def)

section \<open>Refund received by an initiator that knows the secret\<close>

text \<open>
  C3, as the claim states it, fails: with the role \<^verbatim>\<open>"initiator"\<close>, the known secret
  \<open>[0x53]\<close> (which is not \<^verbatim>\<open>ABSENT_SECRET\<close>) and the two routes \<open>[10, 20]\<close>, the
  secret of the state change handed over is the generated \<open>[0x2A, 0]\<close>, not the known
  secret.
\<close>

theorem refund_initiator_known_secret_counterexample:
  "refund_role known_secret_externals example_raiden example_transfer_message = ''initiator'' \<and>
   refund_old_secret known_secret_externals example_raiden example_transfer_message = [0x53] \<and>
   [0x53] \<noteq> ABSENT_SECRET known_secret_externals \<and>
   refund_routes known_secret_externals example_raiden example_transfer_message = [10, 20] \<and>
   map sc_secret (state_changes (new_events example_world
     (on_message known_secret_externals example_raiden (RefundTransfer example_transfer_message)
        example_world))) = [Some [0x2A, 0]] \<and>
   map sc_secret (state_changes (new_events example_world
     (on_message known_secret_externals example_raiden (RefundTransfer example_transfer_message)
        example_world))) \<noteq> [Some [0x53]]"
  by (simp add: dispatch_defs refund_defs handle_message_refundtransfer_def
      random_secret_call_def example_defs new_events_def)

text \<open>
  C3, amended: when a \<^verbatim>\<open>RefundTransfer\<close> is dispatched, the role of the node is
  \<^verbatim>\<open>"initiator"\<close> and the secret known locally is not \<^verbatim>\<open>ABSENT_SECRET\<close>, the
  dispatch returns normally and hands over exactly one state change, a
  \<^verbatim>\<open>ReceiveTransferRefundCancelRoute\<close> that carries all the routes
  \<^verbatim>\<open>get_best_routes\<close> returned, unmodified, and whose secret is the one
  \<^verbatim>\<open>random_secret()\<close> has just generated.
\<close>

theorem refund_initiator_known_secret:
  assumes "refund_role ext raiden m = ''initiator''"
    and "refund_old_secret ext raiden m \<noteq> ABSENT_SECRET ext"
  shows "fst (on_message ext raiden (RefundTransfer m) w) = Inr () \<and>
    state_changes (new_events w (on_message ext raiden (RefundTransfer m) w)) =
      [ReceiveTransferRefundCancelRoute (refund_routes ext raiden m) (refund_transfer ext m)
         (lts_balance_proof (refund_transfer ext m))
         (bp_sender (lts_balance_proof (refund_transfer ext m)))
         (random_secret ext (draws w))]"
  using assms by (simp del: on_message.simps add: refund_initiator_outcome)

theorem refund_initiator_known_secret_witness:
  "refund_role known_secret_externals example_raiden example_transfer_message = ''initiator'' \<and>
   refund_old_secret known_secret_externals example_raiden example_transfer_message \<noteq>
     ABSENT_SECRET known_secret_externals \<and>
   state_changes (new_events example_world
     (on_message known_secret_externals example_raiden (RefundTransfer example_transfer_message)
        example_world)) =
     [ReceiveTransferRefundCancelRoute [10, 20] example_signed_transfer example_balance_proof
        [0xB0] [0x2A, 0]]"
  using refund_initiator_known_secret [of known_secret_externals example_raiden
      example_transfer_message example_world]
  by (simp del: on_message.simps add: refund_defs example_defs new_events_def)

section \<open>Withdraw requests\<close>

text \<open>
  C4: dispatching a \<^verbatim>\<open>WithdrawRequest\<close> should hand over one
  \<^verbatim>\<open>ReceiveWithdrawRequest\<close> and raise nothing. Evaluated at the sample withdraw
  request, the dispatch raises \<^verbatim>\<open>TypeError\<close> at the call of the handler and hands over
  no state change.
\<close>

theorem withdrawrequest_dispatch_raises:
  "on_message example_externals example_raiden (WithdrawRequest example_withdraw_request)
     example_world = (Inl TypeError, \<lparr>events = [Call Handler_withdrawrequest], draws = 0\<rparr>) \<and>
   state_changes (new_events example_world
     (on_message example_externals example_raiden (WithdrawRequest example_withdraw_request)
        example_world)) = []"
  by (simp add: dispatch_defs new_events_def example_defs)

section \<open>Dispatch by the exact class\<close>

text \<open>
  C5: a message of each of the nine classes should invoke the handler of exactly its
  class. Evaluated at the sample withdraw request, the dispatch chooses
  \<^verbatim>\<open>handle_message_withdrawrequest\<close>, but the call raises \<^verbatim>\<open>TypeError\<close> before the
  body runs: the outcome is not the outcome of that handler, which would have handed
  over the \<^verbatim>\<open>ReceiveWithdrawRequest\<close>. The sample \<^verbatim>\<open>Delivered\<close> message, whose
  handler is a static method, is dispatched to \<^verbatim>\<open>handle_message_delivered\<close> and the
  body runs.
\<close>

theorem withdrawrequest_handler_not_run:
  "on_message example_externals example_raiden (WithdrawRequest example_withdraw_request)
     example_world = (Inl TypeError, \<lparr>events = [Call Handler_withdrawrequest], draws = 0\<rparr>) \<and>
   handle_message_withdrawrequest example_raiden example_withdraw_request
     (emit (Call Handler_withdrawrequest) example_world) =
     (Inr (), \<lparr>events = [Call Handler_withdrawrequest,
        HandleAndTrackStateChange (ReceiveWithdrawRequest [0x70] 1 7 [0xA0])], draws = 0\<rparr>) \<and>
   on_message example_externals example_raiden (WithdrawRequest example_withdraw_request)
     example_world \<noteq>
   handle_message_withdrawrequest example_raiden example_withdraw_request
     (emit (Call Handler_withdrawrequest) example_world) \<and>
   on_message example_externals example_raiden (Delivered example_delivered) example_world =
   handle_message_delivered example_raiden example_delivered
     (emit (Call Handler_delivered) example_world)"
  by (simp add: dispatch_defs handle_message_withdrawrequest_def handle_message_delivered_def
      example_defs)

section \<open>Locked transfers that pass the replay guard\<close>

text \<open>
  C6: when a \<^verbatim>\<open>LockedTransfer\<close> is dispatched and the secrethash of its lock is not
  registered, the dispatch returns normally and calls exactly one entry point with the
  message as it was received: \<^verbatim>\<open>target_mediated_transfer\<close> if the target of the
  message is the node's own address, \<^verbatim>\<open>mediate_mediated_transfer\<close> otherwise. It hands
  over no state change.
\<close>

theorem lockedtransfer_target_or_mediate:
  assumes "\<not> is_secret_registered (default_secret_registry raiden)
     (lock_secrethash (lt_lock m)) ''latest''"
  shows "fst (on_message ext raiden (LockedTransfer m) w) = Inr () \<and>
    entry_points (new_events w (on_message ext raiden (LockedTransfer m) w)) =
      [if lt_target m = address raiden then TargetMediatedTransfer m
       else MediateMediatedTransfer m] \<and>
    state_changes (new_events w (on_message ext raiden (LockedTransfer m) w)) = []"
  using assms by (simp del: on_message.simps add: lockedtransfer_outcome)

theorem lockedtransfer_target_or_mediate_witness:
  "\<not> is_secret_registered (default_secret_registry example_raiden)
       (lock_secrethash (lt_lock example_transfer_message)) ''latest'' \<and>
   entry_points (new_events example_world
     (on_message example_externals example_raiden (LockedTransfer example_transfer_message)
        example_world)) = [TargetMediatedTransfer example_transfer_message] \<and>
   entry_points (new_events example_world
     (on_message example_externals example_raiden
        (LockedTransfer (example_transfer_message\<lparr>lt_target := [0xD0]\<rparr>)) example_world)) =
     [MediateMediatedTransfer (example_transfer_message\<lparr>lt_target := [0xD0]\<rparr>)] \<and>
   state_changes (new_events example_world
     (on_message example_externals example_raiden (LockedTransfer example_transfer_message)
        example_world)) = []"
  using lockedtransfer_target_or_mediate [of example_raiden example_transfer_message
      example_externals example_world]
    lockedtransfer_target_or_mediate [of example_raiden
      "example_transfer_message\<lparr>lt_target := [0xD0]\<rparr>" example_externals example_world]
  by (simp del: on_message.simps add: example_defs new_events_def)

section \<open>Refund received by a node that is not the initiator\<close>

text \<open>
  C7: when a \<^verbatim>\<open>RefundTransfer\<close> is dispatched and the role of the node is not
  \<^verbatim>\<open>"initiator"\<close>, the dispatch returns normally and hands over exactly one state
  change: a \<^verbatim>\<open>ReceiveTransferRefund\<close> with the reconstructed transfer, its balance
  proof, the sender of that balance proof, and the routes exactly as
  \<^verbatim>\<open>get_best_routes\<close> returned them, be the list empty or not.
\<close>

theorem refund_mediator:
  assumes "refund_role ext raiden m \<noteq> ''initiator''"
  shows "fst (on_message ext raiden (RefundTransfer m) w) = Inr () \<and>
    state_changes (new_events w (on_message ext raiden (RefundTransfer m) w)) =
      [ReceiveTransferRefund (refund_transfer ext m)
         (lts_balance_proof (refund_transfer ext m))
         (bp_sender (lts_balance_proof (refund_transfer ext m)))
         (refund_routes ext raiden m)]"
  using assms by (simp del: on_message.simps add: refund_mediator_outcome)

theorem refund_mediator_witness:
  "refund_role mediator_externals example_raiden example_transfer_message \<noteq> ''initiator'' \<and>
   refund_routes mediator_externals example_raiden example_transfer_message = [] \<and>
   state_changes (new_events example_world
     (on_message mediator_externals example_raiden (RefundTransfer example_transfer_message)
        example_world)) =
     [ReceiveTransferRefund example_signed_transfer example_balance_proof [0xB0] []]"
  using refund_mediator [of mediator_externals example_raiden example_transfer_message
      example_world]
  by (simp del: on_message.simps add: refund_defs example_defs new_events_def)

section \<open>The sender of an unlock and of an expired lock\<close>

text \<open>
  C8: dispatching an \<^verbatim>\<open>Unlock\<close> or a \<^verbatim>\<open>LockExpired\<close> returns normally and hands over
  exactly one state change. Its balance proof is the one
  \<^verbatim>\<open>balanceproof_from_envelope\<close> derives from the message, and its sender is the
  sender of that balance proof, whatever the \<^verbatim>\<open>sender\<close> attribute of the message
  holds.
\<close>

theorem unlock_lockexpired_sender:
  "fst (on_message ext raiden (Unlock u) w) = Inr () \<and>
   state_changes (new_events w (on_message ext raiden (Unlock u) w)) =
     [ReceiveUnlock (ul_message_identifier u) (ul_secret u)
        (balanceproof_from_envelope ext (Unlock u))
        (bp_sender (balanceproof_from_envelope ext (Unlock u)))] \<and>
   fst (on_message ext raiden (LockExpired e) w) = Inr () \<and>
   state_changes (new_events w (on_message ext raiden (LockExpired e) w)) =
     [ReceiveLockExpired (bp_sender (balanceproof_from_envelope ext (LockExpired e)))
        (balanceproof_from_envelope ext (LockExpired e)) (le_secrethash e)
        (le_message_identifier e)]"
  by (simp add: dispatch_defs new_events_def handle_message_unlock_def
      handle_message_lockexpired_def)

theorem unlock_lockexpired_sender_witness:
  "ul_sender example_unlock = [0xA0] \<and> le_sender example_lock_expired = [0xA0] \<and>
   bp_sender (balanceproof_from_envelope example_externals (Unlock example_unlock)) = [0xB0] \<and>
   map sc_sender (state_changes (new_events example_world
     (on_message example_externals example_raiden (Unlock example_unlock) example_world))) =
     [[0xB0]] \<and>
   map sc_sender (state_changes (new_events example_world
     (on_message example_externals example_raiden (LockExpired example_lock_expired)
        example_world))) = [[0xB0]]"
  using unlock_lockexpired_sender [of example_externals example_raiden example_unlock
      example_world example_lock_expired]
  by (simp del: on_message.simps add: example_defs)

section \<open>Messages of an unknown class\<close>

text \<open>
  C9: dispatching a message whose class is none of the nine returns normally. It only
  logs the error line with the \<^verbatim>\<open>cmdid\<close> of the message: no state change is handed
  over, no entry point and no handler is called.
\<close>

theorem unknown_class_dropped:
  assumes "type_of m \<notin> set known_classes"
  shows "\<exists>om. m = OtherMessage om \<and>
    on_message ext raiden m w =
      (Inr (), w\<lparr>events := events w @ [LogError ''Unknown message cmdid {}'' (om_cmdid om)]\<rparr>) \<and>
    state_changes (new_events w (on_message ext raiden m w)) = [] \<and>
    entry_points (new_events w (on_message ext raiden m w)) = [] \<and>
    handler_calls (new_events w (on_message ext raiden m w)) = []"
  using assms by (cases m) (simp_all add: known_classes_def emit_def)

theorem unknown_class_dropped_witness:
  "type_of (OtherMessage forged_message) \<notin> set known_classes \<and>
   on_message example_externals example_raiden (OtherMessage forged_message) example_world =
     (Inr (), \<lparr>events = [LogError ''Unknown message cmdid {}'' (Some 3)], draws = 0\<rparr>)"
  using unknown_class_dropped [of "OtherMessage forged_message" example_externals
      example_raiden example_world]
  by (simp del: on_message.simps add: known_classes_def example_defs)

section \<open>The secret of a cancelled route is always a new one\<close>

text \<open>
  C10: when a \<^verbatim>\<open>RefundTransfer\<close> is dispatched and the role of the node is
  \<^verbatim>\<open>"initiator"\<close>, the secret of the state change handed over is the value that this
  call of \<^verbatim>\<open>random_secret()\<close> returned, and the generator has been called exactly once,
  whether the secret known locally is \<^verbatim>\<open>ABSENT_SECRET\<close> or not. The known secret does
  not flow into the state change: whatever function \<open>g\<close> stands for
  \<^verbatim>\<open>get_transfer_secret\<close>, the state change is built from the reconstructed transfer,
  the routes and the generated secret, and what \<open>g\<close> returns only decides, by its
  comparison with \<^verbatim>\<open>ABSENT_SECRET\<close>, whether the routes are kept.
\<close>

theorem refund_initiator_secret_fresh:
  assumes "refund_role ext raiden m = ''initiator''"
  shows "map sc_secret (state_changes (new_events w
      (on_message ext raiden (RefundTransfer m) w))) = [Some (random_secret ext (draws w))] \<and>
    draws (snd (on_message ext raiden (RefundTransfer m) w)) = Suc (draws w) \<and>
    (\<forall>g. state_changes (new_events w
      (on_message (ext\<lparr>get_transfer_secret := g\<rparr>) raiden (RefundTransfer m) w)) =
        [ReceiveTransferRefundCancelRoute
           (if g (state_from_raiden ext raiden) (refund_secrethash ext m) = ABSENT_SECRET ext
            then [] else refund_routes ext raiden m)
           (refund_transfer ext m) (lts_balance_proof (refund_transfer ext m))
           (bp_sender (lts_balance_proof (refund_transfer ext m)))
           (random_secret ext (draws w))])"
  using assms
  by (simp del: on_message.simps
      add: refund_initiator_outcome refund_get_transfer_secret_update)

theorem refund_initiator_secret_fresh_witness:
  "refund_role example_externals example_raiden example_transfer_message = ''initiator'' \<and>
   known_secret_externals = example_externals\<lparr>get_transfer_secret := (\<lambda>_ _. [0x53])\<rparr> \<and>
   map sc_secret (state_changes (new_events example_world
     (on_message example_externals example_raiden (RefundTransfer example_transfer_message)
        example_world))) = [Some [0x2A, 0]] \<and>
   state_changes (new_events example_world
     (on_message known_secret_externals example_raiden (RefundTransfer example_transfer_message)
        example_world)) =
     [ReceiveTransferRefundCancelRoute [10, 20] example_signed_transfer example_balance_proof
        [0xB0] [0x2A, 0]] \<and>
   draws (snd (on_message known_secret_externals example_raiden
     (RefundTransfer example_transfer_message) example_world)) = 1"
  using refund_initiator_secret_fresh [of example_externals example_raiden
      example_transfer_message example_world]
    refund_initiator_secret_fresh [of known_secret_externals example_raiden
      example_transfer_message example_world]
  by (simp del: on_message.simps add: refund_defs example_defs new_events_def)

end
